theory Spec2Isabelle
  imports Complex_Main
begin

section \<open>Values exchanged with the ledger SDK\<close>

text \<open>
  The step definitions of \<^verbatim>\<open>create-simple-topic.ts\<close> are glue around the Hedera SDK.
  Identifiers are identified with their \<^verbatim>\<open>toString()\<close> form; a context field that has
  not been set yet (\<^verbatim>\<open>undefined\<close>) is \<open>None\<close>. JavaScript numbers are modelled as
  mathematical integers (the step patterns capture \<^verbatim>\<open>\d+\<close>, and token amounts are
  integral), and the one division of the source is carried out in the reals.
\<close>

type_synonym accountId = string
type_synonym tokenId = string
type_synonym topicId = string
type_synonym privateKey = string
type_synonym txResponse = nat

datatype publicKey = PublicKey privateKey

datatype status = Success | Failure nat

text \<open>A client is determined by the operator set on it; \<^verbatim>\<open>Client.forTestnet()\<close> has none.\<close>

record sdkClient =
  operatorId :: "accountId option"
  operatorKey :: "privateKey option"

definition forTestnet :: sdkClient where
  "forTestnet = \<lparr>operatorId = None, operatorKey = None\<rparr>"

definition setOperator :: "sdkClient \<Rightarrow> accountId option \<Rightarrow> privateKey option \<Rightarrow> sdkClient" where
  "setOperator c a k = c\<lparr>operatorId := a, operatorKey := k\<rparr>"

text \<open>
  A value stored in a balance collection: a \<^verbatim>\<open>Long\<close> object (it has \<^verbatim>\<open>toNumber\<close>) or a
  plain number. A lookup that yields \<^verbatim>\<open>undefined\<close> or \<^verbatim>\<open>null\<close> is \<open>None\<close>.
\<close>

datatype amountVal = LongVal int | NumVal int

text \<open>
  \<^verbatim>\<open>balance.tokens\<close> is duck-typed by the source: it may offer a function \<^verbatim>\<open>get\<close>, or an
  inner \<^verbatim>\<open>_map\<close> that offers a function \<^verbatim>\<open>get\<close>, or neither.
\<close>

record tokenCollection =
  tokens_get :: "(string \<Rightarrow> amountVal option) option"
  tokens_map_get :: "(string \<Rightarrow> amountVal option) option"

record accountBalance =
  hbars :: int
  tokens :: "tokenCollection option"

record tokenInfo =
  treasuryAccountId :: "accountId option"
  tokenInfo_decimals :: "nat option"

record receipt =
  status :: status
  receipt_tokenId :: "tokenId option"

datatype txBody =
    TokenCreateTransaction string string nat int "accountId option" "publicKey option" "publicKey option"
  | TokenMintTransaction "tokenId option" int
  | TokenAssociateTransaction "accountId option" "tokenId option list"
  | TransferTransaction "(tokenId option \<times> accountId option \<times> int) list"
  | TopicMessageSubmitTransaction "topicId option" string

record transaction =
  body :: txBody
  frozenWith :: "sdkClient option"
  signatures :: "privateKey option list"

datatype error =
    SdkError nat
  | TypeError
  | AssertionError string
  | Error string status

datatype logArg = Str string | Num int | ErrorMessage error

text \<open>
  Every call into the SDK is recorded with its outcome, every call of the lookup helper
  \<^verbatim>\<open>getTokenBalance\<close> with its result, and every console line, in program order.
\<close>

datatype event =
    AccountBalanceQueryExecute "accountId option" sdkClient "error + accountBalance"
  | TokenInfoQueryExecute "tokenId option" sdkClient "error + tokenInfo"
  | AddTokenTransfer "tokenId option" "accountId option" int
  | FreezeWith sdkClient
  | Sign "privateKey option"
  | Execute transaction sdkClient "error + txResponse"
  | GetReceipt txResponse sdkClient "error + receipt"
  | GetTokenBalance "accountId option" "tokenId option" "error + int"
  | ConsoleLog "logArg list"

section \<open>The network as a parameter\<close>

text \<open>
  The remote network and the SDK calls that reach it are not part of the repository.
  They are a parameter: each call maps the network state \<open>'n\<close> to an answer (or to a thrown
  error) and a new network state. The two parsers of the SDK are part of the parameter too:
  they return the identifier or key, or throw.
\<close>

record 'n sdk =
  accountBalanceQuery :: "accountId option \<Rightarrow> sdkClient \<Rightarrow> 'n \<Rightarrow> (error + accountBalance) \<times> 'n"
  tokenInfoQuery :: "tokenId option \<Rightarrow> sdkClient \<Rightarrow> 'n \<Rightarrow> (error + tokenInfo) \<times> 'n"
  executeTx :: "transaction \<Rightarrow> sdkClient \<Rightarrow> 'n \<Rightarrow> (error + txResponse) \<times> 'n"
  receiptQuery :: "txResponse \<Rightarrow> sdkClient \<Rightarrow> 'n \<Rightarrow> (error + receipt) \<times> 'n"
  accountId_fromString :: "string \<Rightarrow> error + accountId"
  privateKey_fromStringED25519 :: "string \<Rightarrow> error + privateKey"

text \<open>
  The list \<^verbatim>\<open>accounts\<close> is imported from \<^verbatim>\<open>src/config\<close>: the steps that read it take it
  as a parameter, a list of entries with an \<^verbatim>\<open>id\<close> and a \<^verbatim>\<open>privateKey\<close>.
\<close>

record configAccount =
  account_id :: string
  account_privateKey :: string

section \<open>Scenario context and step programs\<close>

text \<open>
  The cucumber world (\<^verbatim>\<open>this\<close>), the module-level \<^verbatim>\<open>client\<close> of each of the two step
  files, and the network.
\<close>

record 'n world =
  this_topicId :: "topicId option"
  this_privKey :: "privateKey option"
  this_submittedMessage :: "string option"
  this_accountId :: "accountId option"
  this_privateKey :: "privateKey option"
  this_tokenId :: "tokenId option"
  this_firstAccountId :: "accountId option"
  this_firstPrivateKey :: "privateKey option"
  this_secondAccountId :: "accountId option"
  this_secondPrivateKey :: "privateKey option"
  this_thirdAccountId :: "accountId option"
  this_thirdPrivateKey :: "privateKey option"
  this_fourthAccountId :: "accountId option"
  this_fourthPrivateKey :: "privateKey option"
  this_pendingTransaction :: "transaction option"
  topicClient :: sdkClient
  tokenClient :: sdkClient
  net :: 'n

text \<open>
  A step is a program over the world that returns a value or throws, and emits events.
  Effects made before a throw persist, as in JavaScript.
\<close>

type_synonym ('n, 'a) prog = "'n world \<Rightarrow> (error + 'a) \<times> 'n world \<times> event list"

definition ret :: "'a \<Rightarrow> ('n, 'a) prog" where
  "ret x = (\<lambda>w. (Inr x, w, []))"

definition throw :: "error \<Rightarrow> ('n, 'a) prog" where
  "throw e = (\<lambda>w. (Inl e, w, []))"

definition bnd :: "('n, 'a) prog \<Rightarrow> ('a \<Rightarrow> ('n, 'b) prog) \<Rightarrow> ('n, 'b) prog" where
  "bnd m f = (\<lambda>w. case m w of (r, w', ev) \<Rightarrow>
     (case r of
        Inl e \<Rightarrow> (Inl e, w', ev)
      | Inr x \<Rightarrow> (case f x w' of (r', w'', ev') \<Rightarrow> (r', w'', ev @ ev'))))"

definition tryCatch :: "('n, 'a) prog \<Rightarrow> (error \<Rightarrow> ('n, 'a) prog) \<Rightarrow> ('n, 'a) prog" where
  "tryCatch m h = (\<lambda>w. case m w of (r, w', ev) \<Rightarrow>
     (case r of
        Inl e \<Rightarrow> (case h e w' of (r', w'', ev') \<Rightarrow> (r', w'', ev @ ev'))
      | Inr x \<Rightarrow> (Inr x, w', ev)))"

definition getWorld :: "('n, 'n world) prog" where
  "getWorld = (\<lambda>w. (Inr w, w, []))"

definition assign :: "('n world \<Rightarrow> 'n world) \<Rightarrow> ('n, unit) prog" where
  "assign f = (\<lambda>w. (Inr (), f w, []))"

definition emit :: "event \<Rightarrow> ('n, unit) prog" where
  "emit e = (\<lambda>w. (Inr (), w, [e]))"

definition consoleLog :: "logArg list \<Rightarrow> ('n, unit) prog" where
  "consoleLog args = emit (ConsoleLog args)"

text \<open>Running a helper and recording what it returned or threw.\<close>

definition recordResult :: "((error + 'a) \<Rightarrow> event) \<Rightarrow> ('n, 'a) prog \<Rightarrow> ('n, 'a) prog" where
  "recordResult mk m = (\<lambda>w. case m w of (r, w', ev) \<Rightarrow> (r, w', ev @ [mk r]))"

text \<open>\<^verbatim>\<open>x.toString()\<close> and \<^verbatim>\<open>k.publicKey\<close> throw a TypeError on \<^verbatim>\<open>undefined\<close>.\<close>

definition toString :: "string option \<Rightarrow> ('n, string) prog" where
  "toString x = (case x of None \<Rightarrow> throw TypeError | Some s \<Rightarrow> ret s)"

definition publicKey :: "privateKey option \<Rightarrow> ('n, publicKey) prog" where
  "publicKey k = (case k of None \<Rightarrow> throw TypeError | Some s \<Rightarrow> ret (PublicKey s))"

text \<open>\<^verbatim>\<open>assert.strictEqual\<close> and \<^verbatim>\<open>assert.fail\<close> of \<^verbatim>\<open>node:assert\<close>.\<close>

definition assert_strictEqual :: "'a \<Rightarrow> 'a \<Rightarrow> ('n, unit) prog" where
  "assert_strictEqual actual expected =
     (if actual = expected then ret () else throw (AssertionError ''strictEqual''))"

definition assert_fail :: "string \<Rightarrow> ('n, unit) prog" where
  "assert_fail msg = throw (AssertionError msg)"

definition assert_ok :: "bool \<Rightarrow> ('n, unit) prog" where
  "assert_ok b = (if b then ret () else throw (AssertionError ''ok''))"

text \<open>A pure computation that may throw, run as a program.\<close>

definition liftE :: "error + 'a \<Rightarrow> ('n, 'a) prog" where
  "liftE r = (case r of Inl e \<Rightarrow> throw e | Inr x \<Rightarrow> ret x)"

text \<open>\<^verbatim>\<open>accounts[i]\<close> followed by a read of its fields: a TypeError when the list is too
  short.\<close>

definition accountAt :: "configAccount list \<Rightarrow> nat \<Rightarrow> ('n, configAccount) prog" where
  "accountAt accounts i = (if i < length accounts then ret (accounts ! i) else throw TypeError)"

subsection \<open>The SDK calls\<close>

definition accountBalanceQuery_execute ::
  "'n sdk \<Rightarrow> accountId option \<Rightarrow> sdkClient \<Rightarrow> ('n, accountBalance) prog" where
  "accountBalanceQuery_execute k a c = (\<lambda>w.
     case accountBalanceQuery k a c (net w) of
       (r, n') \<Rightarrow> (r, w\<lparr>net := n'\<rparr>, [AccountBalanceQueryExecute a c r]))"

definition tokenInfoQuery_execute ::
  "'n sdk \<Rightarrow> tokenId option \<Rightarrow> sdkClient \<Rightarrow> ('n, tokenInfo) prog" where
  "tokenInfoQuery_execute k t c = (\<lambda>w.
     case tokenInfoQuery k t c (net w) of
       (r, n') \<Rightarrow> (r, w\<lparr>net := n'\<rparr>, [TokenInfoQueryExecute t c r]))"

definition execute :: "'n sdk \<Rightarrow> transaction \<Rightarrow> sdkClient \<Rightarrow> ('n, txResponse) prog" where
  "execute k tx c = (\<lambda>w.
     case executeTx k tx c (net w) of
       (r, n') \<Rightarrow> (r, w\<lparr>net := n'\<rparr>, [Execute tx c r]))"

definition getReceipt :: "'n sdk \<Rightarrow> txResponse \<Rightarrow> sdkClient \<Rightarrow> ('n, receipt) prog" where
  "getReceipt k resp c = (\<lambda>w.
     case receiptQuery k resp c (net w) of
       (r, n') \<Rightarrow> (r, w\<lparr>net := n'\<rparr>, [GetReceipt resp c r]))"

text \<open>The local builder calls: they change the transaction object and are recorded.\<close>

definition newTransaction :: "txBody \<Rightarrow> transaction" where
  "newTransaction b = \<lparr>body = b, frozenWith = None, signatures = []\<rparr>"

definition addTokenTransfer ::
  "transaction \<Rightarrow> tokenId option \<Rightarrow> accountId option \<Rightarrow> int \<Rightarrow> ('n, transaction) prog" where
  "addTokenTransfer tx t a v =
     bnd (emit (AddTokenTransfer t a v)) (\<lambda>_.
     ret (case body tx of
            TransferTransaction es \<Rightarrow> tx\<lparr>body := TransferTransaction (es @ [(t, a, v)])\<rparr>
          | _ \<Rightarrow> tx))"

definition freezeWith :: "transaction \<Rightarrow> sdkClient \<Rightarrow> ('n, transaction) prog" where
  "freezeWith tx c = bnd (emit (FreezeWith c)) (\<lambda>_. ret (tx\<lparr>frozenWith := Some c\<rparr>))"

definition sign :: "transaction \<Rightarrow> privateKey option \<Rightarrow> ('n, transaction) prog" where
  "sign tx k = bnd (emit (Sign k)) (\<lambda>_. ret (tx\<lparr>signatures := signatures tx @ [k]\<rparr>))"

section \<open>Helpers of the token step file\<close>

text \<open>\<^verbatim>\<open>adjustForDecimals(amount, decimals = 2)\<close>; \<open>None\<close> is the omitted argument.\<close>

definition adjustForDecimals :: "int \<Rightarrow> nat option \<Rightarrow> int" where
  "adjustForDecimals amount decimals =
     amount * 10 ^ (case decimals of None \<Rightarrow> 2 | Some d \<Rightarrow> d)"

text \<open>JavaScript truthiness of a looked-up value, and \<^verbatim>\<open>v || 0\<close>.\<close>

definition truthy :: "amountVal option \<Rightarrow> bool" where
  "truthy v = (case v of None \<Rightarrow> False | Some (LongVal _) \<Rightarrow> True | Some (NumVal n) \<Rightarrow> n \<noteq> 0)"

definition orZero :: "amountVal option \<Rightarrow> amountVal" where
  "orZero v = (case v of None \<Rightarrow> NumVal 0 | Some x \<Rightarrow> if truthy v then x else NumVal 0)"

definition getTokenBalance ::
  "'n sdk \<Rightarrow> accountId option \<Rightarrow> tokenId option \<Rightarrow> ('n, int) prog" where
  "getTokenBalance k accountId tokenId =
     recordResult (GetTokenBalance accountId tokenId) (
     bnd getWorld (\<lambda>w.
     bnd (accountBalanceQuery_execute k accountId (tokenClient w)) (\<lambda>balance.
     case tokens balance of
       None \<Rightarrow> ret 0
     | Some toks \<Rightarrow>
         bnd (case tokens_get toks of
                Some g \<Rightarrow> bnd (toString tokenId) (\<lambda>s. ret (orZero (g s)))
              | None \<Rightarrow>
                  (case tokens_map_get toks of
                     Some g \<Rightarrow> bnd (toString tokenId) (\<lambda>s. ret (orZero (g s)))
                   | None \<Rightarrow> ret (NumVal 0)))
           (\<lambda>tokenBalance.
              if tokenBalance = NumVal 0 then ret 0
              else (case tokenBalance of
                      LongVal n \<Rightarrow> ret n
                    | NumVal n \<Rightarrow> ret n)))))"


section \<open>Step definitions of the topic file\<close>

text \<open>\<^verbatim>\<open>When The message "..." is published to the topic\<close>\<close>

definition When_The_message_is_published_to_the_topic :: "'n sdk \<Rightarrow> string \<Rightarrow> ('n, unit) prog" where
  "When_The_message_is_published_to_the_topic k message =
     bnd getWorld (\<lambda>w.
     bnd (freezeWith (newTransaction (TopicMessageSubmitTransaction (this_topicId w) message))
            (topicClient w)) (\<lambda>transaction.
     bnd (sign transaction (this_privKey w)) (\<lambda>signedTx.
     bnd (execute k signedTx (topicClient w)) (\<lambda>txResponse.
     bnd (getReceipt k txResponse (topicClient w)) (\<lambda>receipt.
     if status receipt \<noteq> Success
     then throw (Error ''Message submission failed: '' (status receipt))
     else
       bnd (assign (\<lambda>w. w\<lparr>this_submittedMessage := Some message\<rparr>)) (\<lambda>_.
       consoleLog [Str ''Message submitted to topic: '', Str message]))))))"

section \<open>Step definitions of the token file\<close>

text \<open>\<^verbatim>\<open>When I create a fixed supply token named Test Token (HTT) with N tokens\<close>:
  the transaction is built without a supply key.\<close>

definition When_I_create_a_fixed_supply_token :: "'n sdk \<Rightarrow> int \<Rightarrow> ('n, unit) prog" where
  "When_I_create_a_fixed_supply_token k supply =
     bnd getWorld (\<lambda>w.
     bnd (publicKey (this_privateKey w)) (\<lambda>adminKey.
     bnd (execute k
            (newTransaction (TokenCreateTransaction ''Test Token'' ''HTT'' 2
               (adjustForDecimals supply None) (this_accountId w) (Some adminKey) None))
            (tokenClient w)) (\<lambda>transaction.
     bnd (getReceipt k transaction (tokenClient w)) (\<lambda>receipt.
     bnd (assign (\<lambda>w. w\<lparr>this_tokenId := receipt_tokenId receipt\<rparr>)) (\<lambda>_.
     bnd (toString (receipt_tokenId receipt)) (\<lambda>s.
     consoleLog [Str ''Created fixed supply token: '', Str s]))))))"

text \<open>\<^verbatim>\<open>Then An attempt to mint tokens fails\<close>: the whole body, \<^verbatim>\<open>assert.fail\<close> included,
  is inside the \<^verbatim>\<open>try\<close> block.\<close>

definition Then_An_attempt_to_mint_tokens_fails :: "'n sdk \<Rightarrow> ('n, unit) prog" where
  "Then_An_attempt_to_mint_tokens_fails k =
     tryCatch
       (bnd getWorld (\<lambda>w.
        bnd (freezeWith (newTransaction (TokenMintTransaction (this_tokenId w) 100))
               (tokenClient w)) (\<lambda>transaction.
        bnd (sign transaction (this_privateKey w)) (\<lambda>transaction.
        bnd (execute k transaction (tokenClient w)) (\<lambda>_.
        assert_fail ''Token minting should have failed for fixed supply token'')))))
       (\<lambda>error. consoleLog [Str ''Token minting failed as expected for fixed supply token''])"

text \<open>\<^verbatim>\<open>Given The first account initially holds N HTT tokens\<close>: the balance lookup is
  made before the \<^verbatim>\<open>try\<close> block is entered.\<close>

definition Given_The_first_account_initially_holds :: "'n sdk \<Rightarrow> int \<Rightarrow> ('n, unit) prog" where
  "Given_The_first_account_initially_holds k amount =
     bnd getWorld (\<lambda>w.
     bnd (getTokenBalance k (this_firstAccountId w) (this_tokenId w)) (\<lambda>currentBalance.
     let expectedBalance = adjustForDecimals amount None in
     bnd (if currentBalance \<noteq> expectedBalance then
            tryCatch
              (bnd (tokenInfoQuery_execute k (this_tokenId w) (tokenClient w)) (\<lambda>tokenInfo.
               bnd (toString (this_firstAccountId w)) (\<lambda>firstStr.
               if treasuryAccountId tokenInfo = Some firstStr then
                 (if currentBalance < expectedBalance then
                    bnd (freezeWith
                           (newTransaction (TokenMintTransaction (this_tokenId w)
                              (expectedBalance - currentBalance)))
                           (tokenClient w)) (\<lambda>mintTx.
                    bnd (sign mintTx (this_firstPrivateKey w)) (\<lambda>signedTx.
                    bnd (execute k signedTx (tokenClient w)) (\<lambda>_. ret ())))
                  else ret ())
               else ret ())))
              (\<lambda>error. consoleLog [Str ''Error adjusting token balance:'', ErrorMessage error])
          else ret ()) (\<lambda>_.
     consoleLog [Str ''First account holds '', Num amount, Str '' HTT tokens''])))"

text \<open>\<^verbatim>\<open>Given The second account initially holds N HTT tokens\<close>\<close>

definition Given_The_second_account_initially_holds :: "'n sdk \<Rightarrow> int \<Rightarrow> ('n, unit) prog" where
  "Given_The_second_account_initially_holds k amount =
     bnd (if amount > 0 then
            tryCatch
              (bnd getWorld (\<lambda>w.
               let secondClient =
                     setOperator forTestnet (this_secondAccountId w) (this_secondPrivateKey w) in
               bnd (freezeWith
                      (newTransaction (TokenAssociateTransaction (this_secondAccountId w)
                         [this_tokenId w]))
                      secondClient) (\<lambda>associateTx.
               bnd (sign associateTx (this_secondPrivateKey w)) (\<lambda>signedTx.
               bnd (execute k signedTx secondClient) (\<lambda>_.
               bnd (getTokenBalance k (this_secondAccountId w) (this_tokenId w)) (\<lambda>currentBalance.
               let expectedBalance = adjustForDecimals amount None in
               if currentBalance \<noteq> expectedBalance then
                 bnd (addTokenTransfer (newTransaction (TransferTransaction []))
                        (this_tokenId w) (this_firstAccountId w)
                        (- (expectedBalance - currentBalance))) (\<lambda>tx.
                 bnd (addTokenTransfer tx (this_tokenId w) (this_secondAccountId w)
                        (expectedBalance - currentBalance)) (\<lambda>tx.
                 bnd (execute k tx (tokenClient w)) (\<lambda>transferTx.
                 bnd (getReceipt k transferTx (tokenClient w)) (\<lambda>_. ret ()))))
               else ret ()))))))
              (\<lambda>error. consoleLog
                 [Str ''Error setting up second account tokens:'', ErrorMessage error])
          else ret ()) (\<lambda>_.
     consoleLog [Str ''Second account holds '', Num amount, Str '' HTT tokens''])"

text \<open>\<^verbatim>\<open>Given The first account holds N HTT tokens\<close>: the same body as the
  \<^verbatim>\<open>initially holds\<close> step of the first account.\<close>

definition Given_The_first_account_holds :: "'n sdk \<Rightarrow> int \<Rightarrow> ('n, unit) prog" where
  "Given_The_first_account_holds k amount =
     bnd getWorld (\<lambda>w.
     bnd (getTokenBalance k (this_firstAccountId w) (this_tokenId w)) (\<lambda>currentBalance.
     let expectedBalance = adjustForDecimals amount None in
     bnd (if currentBalance \<noteq> expectedBalance then
            tryCatch
              (bnd (tokenInfoQuery_execute k (this_tokenId w) (tokenClient w)) (\<lambda>tokenInfo.
               bnd (toString (this_firstAccountId w)) (\<lambda>firstStr.
               if treasuryAccountId tokenInfo = Some firstStr then
                 (if currentBalance < expectedBalance then
                    bnd (freezeWith
                           (newTransaction (TokenMintTransaction (this_tokenId w)
                              (expectedBalance - currentBalance)))
                           (tokenClient w)) (\<lambda>mintTx.
                    bnd (sign mintTx (this_firstPrivateKey w)) (\<lambda>signedTx.
                    bnd (execute k signedTx (tokenClient w)) (\<lambda>_. ret ())))
                  else ret ())
               else ret ())))
              (\<lambda>error. consoleLog [Str ''Error adjusting token balance:'', ErrorMessage error])
          else ret ()) (\<lambda>_.
     consoleLog [Str ''First account holds '', Num amount, Str '' HTT tokens''])))"

text \<open>
  The flag \<^verbatim>\<open>needsAssociation\<close> of the step below: it stays \<^verbatim>\<open>true\<close> unless the balance
  response has a truthy entry for the token, found through \<^verbatim>\<open>tokens.get\<close> or through
  \<^verbatim>\<open>tokens._map.get\<close>. Evaluating \<^verbatim>\<open>this.tokenId.toString()\<close> may throw.
\<close>

definition needsAssociation :: "accountBalance \<Rightarrow> tokenId option \<Rightarrow> error + bool" where
  "needsAssociation balance tokenId =
     (case tokens balance of
        None \<Rightarrow> Inr True
      | Some toks \<Rightarrow>
          (case (case tokens_get toks of
                   None \<Rightarrow> Inr False
                 | Some g \<Rightarrow>
                     (case tokenId of None \<Rightarrow> Inl TypeError | Some s \<Rightarrow> Inr (truthy (g s)))) of
             Inl e \<Rightarrow> Inl e
           | Inr viaGet \<Rightarrow>
               if viaGet then Inr False
               else
                 (case (case tokens_map_get toks of
                          None \<Rightarrow> Inr False
                        | Some g \<Rightarrow>
                            (case tokenId of
                               None \<Rightarrow> Inl TypeError
                             | Some s \<Rightarrow> Inr (truthy (g s)))) of
                    Inl e \<Rightarrow> Inl e
                  | Inr viaMap \<Rightarrow> Inr (\<not> viaMap))))"

text \<open>\<^verbatim>\<open>Given The second account holds N HTT tokens\<close>: the association is guarded by
  \<^verbatim>\<open>needsAssociation\<close>, computed from a balance query.\<close>

definition Given_The_second_account_holds :: "'n sdk \<Rightarrow> int \<Rightarrow> ('n, unit) prog" where
  "Given_The_second_account_holds k amount =
     bnd (tryCatch
            (bnd getWorld (\<lambda>w.
             let secondClient =
                   setOperator forTestnet (this_secondAccountId w) (this_secondPrivateKey w) in
             bnd (accountBalanceQuery_execute k (this_secondAccountId w) (tokenClient w))
               (\<lambda>balance.
             bnd (liftE (needsAssociation balance (this_tokenId w))) (\<lambda>needsAssociation.
             bnd (if needsAssociation then
                    bnd (freezeWith
                           (newTransaction (TokenAssociateTransaction (this_secondAccountId w)
                              [this_tokenId w]))
                           secondClient) (\<lambda>associateTx.
                    bnd (sign associateTx (this_secondPrivateKey w)) (\<lambda>signedTx.
                    bnd (execute k signedTx secondClient) (\<lambda>_.
                    consoleLog [Str ''Associated token with second account''])))
                  else ret ()) (\<lambda>_.
             if amount > 0 then
               bnd (getTokenBalance k (this_secondAccountId w) (this_tokenId w))
                 (\<lambda>currentBalance.
               let expectedBalance = adjustForDecimals amount None in
               if currentBalance \<noteq> expectedBalance then
                 bnd (addTokenTransfer (newTransaction (TransferTransaction []))
                        (this_tokenId w) (this_firstAccountId w)
                        (- (expectedBalance - currentBalance))) (\<lambda>tx.
                 bnd (addTokenTransfer tx (this_tokenId w) (this_secondAccountId w)
                        (expectedBalance - currentBalance)) (\<lambda>tx.
                 bnd (execute k tx (tokenClient w)) (\<lambda>transferTx.
                 bnd (getReceipt k transferTx (tokenClient w)) (\<lambda>_. ret ()))))
               else ret ())
             else ret ())))))
            (\<lambda>error. consoleLog
               [Str ''Error setting up second account tokens:'', ErrorMessage error]))
       (\<lambda>_.
     consoleLog [Str ''Second account holds '', Num amount, Str '' HTT tokens''])"

text \<open>\<^verbatim>\<open>this.pendingTransaction.m(...)\<close>: a builder call on the object held by the context.\<close>

definition onPendingTransaction ::
  "(transaction \<Rightarrow> ('n, transaction) prog) \<Rightarrow> ('n, unit) prog" where
  "onPendingTransaction m =
     bnd getWorld (\<lambda>w.
     case this_pendingTransaction w of
       None \<Rightarrow> throw TypeError
     | Some tx \<Rightarrow> bnd (m tx) (\<lambda>tx'. assign (\<lambda>w. w\<lparr>this_pendingTransaction := Some tx'\<rparr>)))"




text \<open>\<^verbatim>\<open>Given A first hedera account with more than N hbar and M HTT tokens\<close>: the
  operator of the module client is set, the hbar balance is asserted, the token is created
  when the context has none, and the balance is then adjusted as in the other setup steps
  of the first account.\<close>

definition Given_A_first_hedera_account_with_hbar_and_HTT_tokens ::
  "'n sdk \<Rightarrow> configAccount list \<Rightarrow> int \<Rightarrow> int \<Rightarrow> ('n, unit) prog" where
  "Given_A_first_hedera_account_with_hbar_and_HTT_tokens k accounts hbarAmount tokenAmount =
     bnd (accountAt accounts 0) (\<lambda>account.
     bnd (liftE (accountId_fromString k (account_id account))) (\<lambda>firstAccountId.
     bnd (liftE (privateKey_fromStringED25519 k (account_privateKey account)))
       (\<lambda>firstPrivateKey.
     bnd (assign (\<lambda>w. w\<lparr>tokenClient :=
            setOperator (tokenClient w) (Some firstAccountId) (Some firstPrivateKey)\<rparr>)) (\<lambda>_.
     bnd (assign (\<lambda>w. w\<lparr>this_firstAccountId := Some firstAccountId\<rparr>)) (\<lambda>_.
     bnd (assign (\<lambda>w. w\<lparr>this_firstPrivateKey := Some firstPrivateKey\<rparr>)) (\<lambda>_.
     bnd getWorld (\<lambda>w.
     bnd (accountBalanceQuery_execute k (Some firstAccountId) (tokenClient w)) (\<lambda>balance.
     bnd (assert_ok (hbars balance > hbarAmount)) (\<lambda>_.
     bnd (if this_tokenId w = None then
            bnd (execute k
                   (newTransaction (TokenCreateTransaction ''Test Token'' ''HTT'' 2
                      (adjustForDecimals 1000 None) (Some firstAccountId)
                      (Some (PublicKey firstPrivateKey)) (Some (PublicKey firstPrivateKey))))
                   (tokenClient w)) (\<lambda>transaction.
            bnd (getReceipt k transaction (tokenClient w)) (\<lambda>receipt.
            assign (\<lambda>w. w\<lparr>this_tokenId := receipt_tokenId receipt\<rparr>)))
          else ret ()) (\<lambda>_.
     bnd getWorld (\<lambda>w.
     bnd (getTokenBalance k (Some firstAccountId) (this_tokenId w)) (\<lambda>currentBalance.
     let expectedBalance = adjustForDecimals tokenAmount None in
     bnd (if currentBalance \<noteq> expectedBalance then
            tryCatch
              (bnd (tokenInfoQuery_execute k (this_tokenId w) (tokenClient w)) (\<lambda>tokenInfo.
               if treasuryAccountId tokenInfo = Some firstAccountId then
                 (if currentBalance < expectedBalance then
                    bnd (freezeWith
                           (newTransaction (TokenMintTransaction (this_tokenId w)
                              (expectedBalance - currentBalance)))
                           (tokenClient w)) (\<lambda>mintTx.
                    bnd (sign mintTx (Some firstPrivateKey)) (\<lambda>signedTx.
                    bnd (execute k signedTx (tokenClient w)) (\<lambda>_. ret ())))
                  else ret ())
               else ret ()))
              (\<lambda>error. consoleLog [Str ''Error adjusting token balance:'', ErrorMessage error])
          else ret ()) (\<lambda>_.
     consoleLog [Str ''First account set up with '', Num tokenAmount,
                 Str '' HTT tokens''])))))))))))))"

text \<open>\<^verbatim>\<open>Given A second Hedera account with N hbar and M HTT tokens\<close>\<close>

definition Given_A_second_Hedera_account_with_hbar_and_HTT_tokens ::
  "'n sdk \<Rightarrow> configAccount list \<Rightarrow> int \<Rightarrow> int \<Rightarrow> ('n, unit) prog" where
  "Given_A_second_Hedera_account_with_hbar_and_HTT_tokens k accounts hbarAmount tokenAmount =
     bnd (accountAt accounts 1) (\<lambda>account.
     bnd (liftE (accountId_fromString k (account_id account))) (\<lambda>secondAccountId.
     bnd (liftE (privateKey_fromStringED25519 k (account_privateKey account)))
       (\<lambda>secondPrivateKey.
     bnd (assign (\<lambda>w. w\<lparr>this_secondAccountId := Some secondAccountId\<rparr>)) (\<lambda>_.
     bnd (assign (\<lambda>w. w\<lparr>this_secondPrivateKey := Some secondPrivateKey\<rparr>)) (\<lambda>_.
     bnd (if tokenAmount > 0 then
            tryCatch
              (bnd getWorld (\<lambda>w.
               let secondClient =
                     setOperator forTestnet (Some secondAccountId) (Some secondPrivateKey) in
               bnd (freezeWith
                      (newTransaction (TokenAssociateTransaction (Some secondAccountId)
                         [this_tokenId w]))
                      secondClient) (\<lambda>associateTx.
               bnd (sign associateTx (Some secondPrivateKey)) (\<lambda>signedTx.
               bnd (execute k signedTx secondClient) (\<lambda>_.
               bnd (getTokenBalance k (Some secondAccountId) (this_tokenId w))
                 (\<lambda>currentBalance.
               let expectedBalance = adjustForDecimals tokenAmount None in
               if currentBalance \<noteq> expectedBalance then
                 bnd (addTokenTransfer (newTransaction (TransferTransaction []))
                        (this_tokenId w) (this_firstAccountId w)
                        (- (expectedBalance - currentBalance))) (\<lambda>tx.
                 bnd (addTokenTransfer tx (this_tokenId w) (Some secondAccountId)
                        (expectedBalance - currentBalance)) (\<lambda>tx.
                 bnd (execute k tx (tokenClient w)) (\<lambda>transferTx.
                 bnd (getReceipt k transferTx (tokenClient w)) (\<lambda>_. ret ()))))
               else ret ()))))))
              (\<lambda>error. consoleLog
                 [Str ''Token setup for second account encountered an issue:'',
                  ErrorMessage error])
          else ret ()) (\<lambda>_.
     consoleLog [Str ''Second account set up with '', Num tokenAmount,
                 Str '' HTT tokens'']))))))"

text \<open>\<^verbatim>\<open>Given A third Hedera account with N hbar and M HTT tokens\<close>\<close>

definition Given_A_third_Hedera_account_with_hbar_and_HTT_tokens ::
  "'n sdk \<Rightarrow> configAccount list \<Rightarrow> int \<Rightarrow> int \<Rightarrow> ('n, unit) prog" where
  "Given_A_third_Hedera_account_with_hbar_and_HTT_tokens k accounts hbarAmount tokenAmount =
     bnd (accountAt accounts 2) (\<lambda>account.
     bnd (liftE (accountId_fromString k (account_id account))) (\<lambda>thirdAccountId.
     bnd (liftE (privateKey_fromStringED25519 k (account_privateKey account)))
       (\<lambda>thirdPrivateKey.
     bnd (assign (\<lambda>w. w\<lparr>this_thirdAccountId := Some thirdAccountId\<rparr>)) (\<lambda>_.
     bnd (assign (\<lambda>w. w\<lparr>this_thirdPrivateKey := Some thirdPrivateKey\<rparr>)) (\<lambda>_.
     bnd (if tokenAmount > 0 then
            tryCatch
              (bnd getWorld (\<lambda>w.
               let thirdClient =
                     setOperator forTestnet (Some thirdAccountId) (Some thirdPrivateKey) in
               bnd (freezeWith
                      (newTransaction (TokenAssociateTransaction (Some thirdAccountId)
                         [this_tokenId w]))
                      thirdClient) (\<lambda>associateTx.
               bnd (sign associateTx (Some thirdPrivateKey)) (\<lambda>signedTx.
               bnd (execute k signedTx thirdClient) (\<lambda>_.
               bnd (getTokenBalance k (Some thirdAccountId) (this_tokenId w))
                 (\<lambda>currentBalance.
               let expectedBalance = adjustForDecimals tokenAmount None in
               if currentBalance \<noteq> expectedBalance then
                 bnd (addTokenTransfer (newTransaction (TransferTransaction []))
                        (this_tokenId w) (this_firstAccountId w)
                        (- (expectedBalance - currentBalance))) (\<lambda>tx.
                 bnd (addTokenTransfer tx (this_tokenId w) (Some thirdAccountId)
                        (expectedBalance - currentBalance)) (\<lambda>tx.
                 bnd (execute k tx (tokenClient w)) (\<lambda>transferTx.
                 bnd (getReceipt k transferTx (tokenClient w)) (\<lambda>_. ret ()))))
               else ret ()))))))
              (\<lambda>error. consoleLog
                 [Str ''Token setup for third account encountered an issue:'',
                  ErrorMessage error])
          else ret ()) (\<lambda>_.
     consoleLog [Str ''Third account set up with '', Num tokenAmount,
                 Str '' HTT tokens'']))))))"

text \<open>\<^verbatim>\<open>Given A fourth Hedera account with N hbar and M HTT tokens\<close>\<close>

definition Given_A_fourth_Hedera_account_with_hbar_and_HTT_tokens ::
  "'n sdk \<Rightarrow> configAccount list \<Rightarrow> int \<Rightarrow> int \<Rightarrow> ('n, unit) prog" where
  "Given_A_fourth_Hedera_account_with_hbar_and_HTT_tokens k accounts hbarAmount tokenAmount =
     bnd (accountAt accounts 3) (\<lambda>account.
     bnd (liftE (accountId_fromString k (account_id account))) (\<lambda>fourthAccountId.
     bnd (liftE (privateKey_fromStringED25519 k (account_privateKey account)))
       (\<lambda>fourthPrivateKey.
     bnd (assign (\<lambda>w. w\<lparr>this_fourthAccountId := Some fourthAccountId\<rparr>)) (\<lambda>_.
     bnd (assign (\<lambda>w. w\<lparr>this_fourthPrivateKey := Some fourthPrivateKey\<rparr>)) (\<lambda>_.
     bnd (if tokenAmount > 0 then
            tryCatch
              (bnd getWorld (\<lambda>w.
               let fourthClient =
                     setOperator forTestnet (Some fourthAccountId) (Some fourthPrivateKey) in
               bnd (freezeWith
                      (newTransaction (TokenAssociateTransaction (Some fourthAccountId)
                         [this_tokenId w]))
                      fourthClient) (\<lambda>associateTx.
               bnd (sign associateTx (Some fourthPrivateKey)) (\<lambda>signedTx.
               bnd (execute k signedTx fourthClient) (\<lambda>_.
               bnd (getTokenBalance k (Some fourthAccountId) (this_tokenId w))
                 (\<lambda>currentBalance.
               let expectedBalance = adjustForDecimals tokenAmount None in
               if currentBalance \<noteq> expectedBalance then
                 bnd (addTokenTransfer (newTransaction (TransferTransaction []))
                        (this_tokenId w) (this_firstAccountId w)
                        (- (expectedBalance - currentBalance))) (\<lambda>tx.
                 bnd (addTokenTransfer tx (this_tokenId w) (Some fourthAccountId)
                        (expectedBalance - currentBalance)) (\<lambda>tx.
                 bnd (execute k tx (tokenClient w)) (\<lambda>transferTx.
                 bnd (getReceipt k transferTx (tokenClient w)) (\<lambda>_. ret ()))))
               else ret ()))))))
              (\<lambda>error. consoleLog
                 [Str ''Token setup for fourth account encountered an issue:'',
                  ErrorMessage error])
          else ret ()) (\<lambda>_.
     consoleLog [Str ''Fourth account set up with '', Num tokenAmount,
                 Str '' HTT tokens'']))))))"






section \<open>Reading a run\<close>

text \<open>The outcome, the final world and the events of running a program.\<close>

definition outcome :: "(error + 'a) \<times> 'n world \<times> event list \<Rightarrow> error + 'a" where
  "outcome r = fst r"

definition finalWorld :: "(error + 'a) \<times> 'n world \<times> event list \<Rightarrow> 'n world" where
  "finalWorld r = fst (snd r)"

definition events :: "(error + 'a) \<times> 'n world \<times> event list \<Rightarrow> event list" where
  "events r = snd (snd r)"

text \<open>The transactions submitted to the network, in order.\<close>

fun executed :: "event list \<Rightarrow> transaction list" where
  "executed [] = []"
| "executed (Execute tx c r # es) = tx # executed es"
| "executed (e # es) = executed es"

text \<open>The amounts minted and the entry lists transferred by the submitted transactions.\<close>

fun minted :: "transaction list \<Rightarrow> int list" where
  "minted [] = []"
| "minted (tx # txs) =
     (case body tx of TokenMintTransaction t a \<Rightarrow> a # minted txs | _ \<Rightarrow> minted txs)"

fun transferred :: "transaction list \<Rightarrow> (tokenId option \<times> accountId option \<times> int) list list" where
  "transferred [] = []"
| "transferred (tx # txs) =
     (case body tx of TransferTransaction es \<Rightarrow> es # transferred txs | _ \<Rightarrow> transferred txs)"



text \<open>The results of the calls of the lookup helper, in order.\<close>

fun lookedUp :: "event list \<Rightarrow> (error + int) list" where
  "lookedUp [] = []"
| "lookedUp (GetTokenBalance a t r # es) = r # lookedUp es"
| "lookedUp (e # es) = lookedUp es"

text \<open>The receipts obtained, in order.\<close>

fun receipts :: "event list \<Rightarrow> receipt list" where
  "receipts [] = []"
| "receipts (GetReceipt resp c (Inr rc) # es) = rc # receipts es"
| "receipts (e # es) = receipts es"





text \<open>What the claim about the lookup helper calls the stored raw amount, 0 when absent.\<close>

definition storedAmount :: "amountVal option \<Rightarrow> int" where
  "storedAmount v = (case v of None \<Rightarrow> 0 | Some (LongVal n) \<Rightarrow> n | Some (NumVal n) \<Rightarrow> n)"

text \<open>The result of the lookup helper as a function of the balance response.\<close>

definition amountOf :: "accountBalance \<Rightarrow> tokenId option \<Rightarrow> error + int" where
  "amountOf b t =
     (case tokens b of
        None \<Rightarrow> Inr 0
      | Some toks \<Rightarrow>
          (case tokens_get toks of
             Some g \<Rightarrow> (case t of None \<Rightarrow> Inl TypeError | Some s \<Rightarrow> Inr (storedAmount (g s)))
           | None \<Rightarrow>
               (case tokens_map_get toks of
                  Some g \<Rightarrow>
                    (case t of None \<Rightarrow> Inl TypeError | Some s \<Rightarrow> Inr (storedAmount (g s)))
                | None \<Rightarrow> Inr 0)))"

text \<open>The token-info answers obtained, in order.\<close>

fun tokenInfos :: "event list \<Rightarrow> tokenInfo list" where
  "tokenInfos [] = []"
| "tokenInfos (TokenInfoQueryExecute t c (Inr i) # es) = i # tokenInfos es"
| "tokenInfos (e # es) = tokenInfos es"

text \<open>The errors thrown by SDK calls and by the lookup helper, and the errors written to
  the console.\<close>

fun thrown :: "event list \<Rightarrow> error list" where
  "thrown [] = []"
| "thrown (AccountBalanceQueryExecute a c (Inl e) # es) = e # thrown es"
| "thrown (TokenInfoQueryExecute t c (Inl e) # es) = e # thrown es"
| "thrown (Execute tx c (Inl e) # es) = e # thrown es"
| "thrown (GetReceipt resp c (Inl e) # es) = e # thrown es"
| "thrown (GetTokenBalance a t (Inl e) # es) = e # thrown es"
| "thrown (ev # es) = thrown es"

fun loggedErrors :: "logArg list \<Rightarrow> error list" where
  "loggedErrors [] = []"
| "loggedErrors (ErrorMessage e # as) = e # loggedErrors as"
| "loggedErrors (a # as) = loggedErrors as"

fun logged :: "event list \<Rightarrow> error list" where
  "logged [] = []"
| "logged (ConsoleLog args # es) = loggedErrors args @ logged es"
| "logged (ev # es) = logged es"


text \<open>\<open>holdsAfter m w Q\<close>: the run of \<open>m\<close> from \<open>w\<close> satisfies \<open>Q\<close>.\<close>

definition holdsAfter ::
  "('n, 'a) prog \<Rightarrow> 'n world \<Rightarrow> ((error + 'a) \<times> 'n world \<times> event list \<Rightarrow> bool) \<Rightarrow> bool" where
  "holdsAfter m w Q = Q (m w)"

text \<open>The lookup helper asks once and reads the answer off the response.\<close>

definition lookupResult :: "'n sdk \<Rightarrow> accountId option \<Rightarrow> tokenId option \<Rightarrow> 'n world \<Rightarrow> error + int" where
  "lookupResult k a t w =
     (case fst (accountBalanceQuery k a (tokenClient w) (net w)) of
        Inl e \<Rightarrow> Inl e
      | Inr b \<Rightarrow> amountOf b t)"

section \<open>Properties of runs\<close>

text \<open>
  \<open>currentIs e r\<close>: every balance the run \<open>r\<close> looked up was \<open>e\<close>.
  \<open>submitsNoAdjustment r\<close>: the run submitted no mint and no transfer.
  \<open>noAdjustment w r\<close>: moreover the run, started in \<open>w\<close>, left the scenario context as
  it was.
\<close>

definition currentIs :: "int \<Rightarrow> (error + unit) \<times> 'n world \<times> event list \<Rightarrow> bool" where
  "currentIs e r = list_all (\<lambda>x. x = Inr e) (lookedUp (events r))"

definition submitsNoAdjustment :: "(error + unit) \<times> 'n world \<times> event list \<Rightarrow> bool" where
  "submitsNoAdjustment r =
     (minted (executed (events r)) = [] \<and> transferred (executed (events r)) = [])"

definition noAdjustment :: "'n world \<Rightarrow> (error + unit) \<times> 'n world \<times> event list \<Rightarrow> bool" where
  "noAdjustment w r =
     (submitsNoAdjustment r \<and> finalWorld r = w\<lparr>net := net (finalWorld r)\<rparr>)"

text \<open>
  The adjustment made by a setup step of the first account \<open>first\<close>: the only
  transactions that count are mints, one of exactly \<open>expected - current\<close> for a lookup
  that returned \<open>current < expected\<close> when the token info names the first account as
  treasury.
\<close>

definition mintsShortfall ::
  "accountId option \<Rightarrow> int \<Rightarrow> (error + unit) \<times> 'n world \<times> event list \<Rightarrow> bool" where
  "mintsShortfall first expected r =
     (minted (executed (events r)) =
        [expected - current.
           Inr current \<leftarrow> lookedUp (events r), current < expected,
           info \<leftarrow> tokenInfos (events r),
           first \<noteq> None, treasuryAccountId info = first]
      \<and> transferred (executed (events r)) = [])"

text \<open>
  The adjustment made by a setup step of another account \<open>target\<close>: a transfer for each
  lookup that returned \<open>current \<noteq> expected\<close>, taking \<open>expected - current\<close> from the
  first account and giving it to the target; no mint.
\<close>

definition transfersDifference ::
  "tokenId option \<Rightarrow> accountId option \<Rightarrow> accountId option \<Rightarrow> int \<Rightarrow>
   (error + unit) \<times> 'n world \<times> event list \<Rightarrow> bool" where
  "transfersDifference token first target expected r =
     (transferred (executed (events r)) =
        [[(token, first, - (expected - current)), (token, target, expected - current)].
           Inr current \<leftarrow> lookedUp (events r), current \<noteq> expected]
      \<and> minted (executed (events r)) = [])"

text \<open>Every error thrown during the run was written to the console.\<close>

definition logsWhatIsThrown :: "(error + unit) \<times> 'n world \<times> event list \<Rightarrow> bool" where
  "logsWhatIsThrown r = list_all (\<lambda>e. e \<in> set (logged (events r))) (thrown (events r))"

text \<open>The run returned normally and wrote every error thrown to the console.\<close>

definition swallowsErrors :: "(error + unit) \<times> 'n world \<times> event list \<Rightarrow> bool" where
  "swallowsErrors r = (outcome r = Inr () \<and> logsWhatIsThrown r)"









text \<open>
  The publish step reports the status of the receipt it obtained: it throws for a status
  other than \<^verbatim>\<open>Success\<close> and leaves \<^verbatim>\<open>submittedMessage\<close> alone; it records the message
  otherwise. Without a receipt it has thrown.
\<close>

definition reportsReceiptStatus ::
  "'n world \<Rightarrow> string \<Rightarrow> (error + unit) \<times> 'n world \<times> event list \<Rightarrow> bool" where
  "reportsReceiptStatus w message r =
     (case receipts (events r) of
        [] \<Rightarrow> outcome r \<noteq> Inr ()
      | rc # rcs \<Rightarrow>
          if status rc \<noteq> Success
          then outcome r = Inl (Error ''Message submission failed: '' (status rc))
               \<and> this_submittedMessage (finalWorld r) = this_submittedMessage w
          else outcome r = Inr ()
               \<and> this_submittedMessage (finalWorld r) = Some message)"

section \<open>A scripted network and a sample context\<close>

text \<open>
  Concrete inputs for the examples: a context with four accounts and a token, and a
  network that answers from a script. Its state counts the transactions accepted so far,
  and the count serves as the transaction response.
\<close>

definition sampleClient :: sdkClient where
  "sampleClient = \<lparr>operatorId = Some ''0.0.1'', operatorKey = Some ''key1''\<rparr>"

definition sampleWorld :: "nat world" where
  "sampleWorld =
     \<lparr>this_topicId = Some ''0.0.7'', this_privKey = Some ''key1'',
      this_submittedMessage = None,
      this_accountId = Some ''0.0.1'', this_privateKey = Some ''key1'',
      this_tokenId = Some ''0.0.9'',
      this_firstAccountId = Some ''0.0.1'', this_firstPrivateKey = Some ''key1'',
      this_secondAccountId = Some ''0.0.2'', this_secondPrivateKey = Some ''key2'',
      this_thirdAccountId = Some ''0.0.3'', this_thirdPrivateKey = Some ''key3'',
      this_fourthAccountId = Some ''0.0.4'', this_fourthPrivateKey = Some ''key4'',
      this_pendingTransaction = None,
      topicClient = sampleClient, tokenClient = sampleClient, net = 0\<rparr>"

text \<open>A balance response in the shape of the SDK: \<^verbatim>\<open>get\<close> and \<^verbatim>\<open>_map.get\<close> over \<^verbatim>\<open>Long\<close>s.\<close>

definition holding :: "(string \<times> int) list \<Rightarrow> accountBalance" where
  "holding m =
     \<lparr>hbars = 100,
      tokens = Some \<lparr>tokens_get = Some (\<lambda>s. map_option LongVal (map_of m s)),
                     tokens_map_get = Some (\<lambda>s. map_option LongVal (map_of m s))\<rparr>\<rparr>"

definition scriptedSdk ::
  "(accountId option \<Rightarrow> error + accountBalance) \<Rightarrow> (error + tokenInfo) \<Rightarrow>
   (transaction \<Rightarrow> error option) \<Rightarrow> (error + receipt) \<Rightarrow> nat sdk" where
  "scriptedSdk balances info rejects rc =
     \<lparr>accountBalanceQuery = (\<lambda>a c n. (balances a, n)),
      tokenInfoQuery = (\<lambda>t c n. (info, n)),
      executeTx = (\<lambda>tx c n. case rejects tx of Some e \<Rightarrow> (Inl e, n) | None \<Rightarrow> (Inr n, Suc n)),
      receiptQuery = (\<lambda>resp c n. (rc, n)),
      accountId_fromString = Inr,
      privateKey_fromStringED25519 = Inr\<rparr>"

definition sampleAccounts :: "configAccount list" where
  "sampleAccounts =
     [\<lparr>account_id = ''0.0.1'', account_privateKey = ''key1''\<rparr>,
      \<lparr>account_id = ''0.0.2'', account_privateKey = ''key2''\<rparr>,
      \<lparr>account_id = ''0.0.3'', account_privateKey = ''key3''\<rparr>,
      \<lparr>account_id = ''0.0.4'', account_privateKey = ''key4''\<rparr>]"

definition treasuryIsFirst :: "error + tokenInfo" where
  "treasuryIsFirst = Inr \<lparr>treasuryAccountId = Some ''0.0.1'', tokenInfo_decimals = Some 2\<rparr>"

definition successReceipt :: "error + receipt" where
  "successReceipt = Inr \<lparr>status = Success, receipt_tokenId = None\<rparr>"

definition createdReceipt :: "error + receipt" where
  "createdReceipt = Inr \<lparr>status = Success, receipt_tokenId = Some ''0.0.9''\<rparr>"

definition failureReceipt :: "error + receipt" where
  "failureReceipt = Inr \<lparr>status = Failure 7, receipt_tokenId = None\<rparr>"

section \<open>Basic facts about step programs\<close>

lemmas prog_defs = bnd_def ret_def throw_def getWorld_def assign_def emit_def consoleLog_def
  toString_def tryCatch_def publicKey_def assert_fail_def assert_strictEqual_def liftE_def
  assert_ok_def accountAt_def
  addTokenTransfer_def freezeWith_def sign_def newTransaction_def onPendingTransaction_def
  setOperator_def forTestnet_def

lemma accountBalanceQuery_execute_run:
  "accountBalanceQuery_execute k a c w =
     (fst (accountBalanceQuery k a c (net w)),
      w\<lparr>net := snd (accountBalanceQuery k a c (net w))\<rparr>,
      [AccountBalanceQueryExecute a c (fst (accountBalanceQuery k a c (net w)))])"
  by (simp add: accountBalanceQuery_execute_def split: prod.split)

lemma tokenInfoQuery_execute_run:
  "tokenInfoQuery_execute k t c w =
     (fst (tokenInfoQuery k t c (net w)),
      w\<lparr>net := snd (tokenInfoQuery k t c (net w))\<rparr>,
      [TokenInfoQueryExecute t c (fst (tokenInfoQuery k t c (net w)))])"
  by (simp add: tokenInfoQuery_execute_def split: prod.split)

lemma execute_run:
  "execute k tx c w =
     (fst (executeTx k tx c (net w)),
      w\<lparr>net := snd (executeTx k tx c (net w))\<rparr>,
      [Execute tx c (fst (executeTx k tx c (net w)))])"
  by (simp add: execute_def split: prod.split)

lemma getReceipt_run:
  "getReceipt k r c w =
     (fst (receiptQuery k r c (net w)),
      w\<lparr>net := snd (receiptQuery k r c (net w))\<rparr>,
      [GetReceipt r c (fst (receiptQuery k r c (net w)))])"
  by (simp add: getReceipt_def split: prod.split)

lemma getTokenBalance_run:
  "getTokenBalance k a t w =
     (lookupResult k a t w,
      w\<lparr>net := snd (accountBalanceQuery k a (tokenClient w) (net w))\<rparr>,
      [AccountBalanceQueryExecute a (tokenClient w)
         (fst (accountBalanceQuery k a (tokenClient w) (net w))),
       GetTokenBalance a t (lookupResult k a t w)])"
  by (simp add: getTokenBalance_def accountBalanceQuery_execute_run prog_defs amountOf_def
        orZero_def truthy_def storedAmount_def recordResult_def lookupResult_def
      split: prod.split sum.split option.split amountVal.split)

lemmas sample_defs = scriptedSdk_def sampleWorld_def sampleClient_def holding_def
  lookupResult_def amountOf_def storedAmount_def adjustForDecimals_def treasuryIsFirst_def
  successReceipt_def failureReceipt_def createdReceipt_def sampleAccounts_def

lemmas run_simps = accountBalanceQuery_execute_run tokenInfoQuery_execute_run execute_run
  getReceipt_run getTokenBalance_run prog_defs outcome_def finalWorld_def events_def Let_def

text \<open>Running a program step by step: one rule per construct.\<close>

lemma holdsAfter_ret: "holdsAfter (ret x) w Q = Q (Inr x, w, [])"
  by (simp add: holdsAfter_def ret_def)

lemma holdsAfter_throw: "holdsAfter (throw e) w Q = Q (Inl e, w, [])"
  by (simp add: holdsAfter_def throw_def)

lemma holdsAfter_bnd:
  "holdsAfter (bnd m f) w Q =
     holdsAfter m w (\<lambda>(r, w', ev).
       case r of
         Inl e \<Rightarrow> Q (Inl e, w', ev)
       | Inr x \<Rightarrow> holdsAfter (f x) w' (\<lambda>(r', w'', ev'). Q (r', w'', ev @ ev')))"
  by (simp add: holdsAfter_def bnd_def split: prod.split sum.split)

lemma holdsAfter_tryCatch:
  "holdsAfter (tryCatch m h) w Q =
     holdsAfter m w (\<lambda>(r, w', ev).
       case r of
         Inl e \<Rightarrow> holdsAfter (h e) w' (\<lambda>(r', w'', ev'). Q (r', w'', ev @ ev'))
       | Inr x \<Rightarrow> Q (Inr x, w', ev))"
  by (simp add: holdsAfter_def tryCatch_def split: prod.split sum.split)

lemma holdsAfter_getWorld: "holdsAfter getWorld w Q = Q (Inr w, w, [])"
  by (simp add: holdsAfter_def getWorld_def)

lemma holdsAfter_assign: "holdsAfter (assign f) w Q = Q (Inr (), f w, [])"
  by (simp add: holdsAfter_def assign_def)

lemma holdsAfter_emit: "holdsAfter (emit e) w Q = Q (Inr (), w, [e])"
  by (simp add: holdsAfter_def emit_def)

lemma holdsAfter_liftE: "holdsAfter (liftE r) w Q = Q (r, w, [])"
  by (simp add: holdsAfter_def liftE_def ret_def throw_def split: sum.split)

lemma holdsAfter_toString:
  "holdsAfter (toString x) w Q = Q (case x of None \<Rightarrow> Inl TypeError | Some s \<Rightarrow> Inr s, w, [])"
  by (simp add: holdsAfter_def toString_def ret_def throw_def split: option.split)

lemma holdsAfter_publicKey:
  "holdsAfter (publicKey x) w Q =
     Q (case x of None \<Rightarrow> Inl TypeError | Some s \<Rightarrow> Inr (PublicKey s), w, [])"
  by (simp add: holdsAfter_def publicKey_def ret_def throw_def split: option.split)

lemma holdsAfter_execute:
  "holdsAfter (execute k tx c) w Q =
     Q (fst (executeTx k tx c (net w)), w\<lparr>net := snd (executeTx k tx c (net w))\<rparr>,
        [Execute tx c (fst (executeTx k tx c (net w)))])"
  by (simp add: holdsAfter_def execute_run)

lemma holdsAfter_getReceipt:
  "holdsAfter (getReceipt k r c) w Q =
     Q (fst (receiptQuery k r c (net w)), w\<lparr>net := snd (receiptQuery k r c (net w))\<rparr>,
        [GetReceipt r c (fst (receiptQuery k r c (net w)))])"
  by (simp add: holdsAfter_def getReceipt_run)

lemma holdsAfter_accountBalanceQuery:
  "holdsAfter (accountBalanceQuery_execute k a c) w Q =
     Q (fst (accountBalanceQuery k a c (net w)),
        w\<lparr>net := snd (accountBalanceQuery k a c (net w))\<rparr>,
        [AccountBalanceQueryExecute a c (fst (accountBalanceQuery k a c (net w)))])"
  by (simp add: holdsAfter_def accountBalanceQuery_execute_run)

lemma holdsAfter_tokenInfoQuery:
  "holdsAfter (tokenInfoQuery_execute k t c) w Q =
     Q (fst (tokenInfoQuery k t c (net w)),
        w\<lparr>net := snd (tokenInfoQuery k t c (net w))\<rparr>,
        [TokenInfoQueryExecute t c (fst (tokenInfoQuery k t c (net w)))])"
  by (simp add: holdsAfter_def tokenInfoQuery_execute_run)

lemma holdsAfter_getTokenBalance:
  "holdsAfter (getTokenBalance k a t) w Q =
     Q (lookupResult k a t w,
        w\<lparr>net := snd (accountBalanceQuery k a (tokenClient w) (net w))\<rparr>,
        [AccountBalanceQueryExecute a (tokenClient w)
           (fst (accountBalanceQuery k a (tokenClient w) (net w))),
         GetTokenBalance a t (lookupResult k a t w)])"
  by (simp add: holdsAfter_def getTokenBalance_run)

lemma holdsAfter_addTokenTransfer:
  "holdsAfter (addTokenTransfer tx t a v) w Q =
     Q (Inr (case body tx of
               TransferTransaction es \<Rightarrow> tx\<lparr>body := TransferTransaction (es @ [(t, a, v)])\<rparr>
             | _ \<Rightarrow> tx), w, [AddTokenTransfer t a v])"
  by (simp add: holdsAfter_def addTokenTransfer_def bnd_def emit_def ret_def)

lemma holdsAfter_freezeWith:
  "holdsAfter (freezeWith tx c) w Q = Q (Inr (tx\<lparr>frozenWith := Some c\<rparr>), w, [FreezeWith c])"
  by (simp add: holdsAfter_def freezeWith_def bnd_def emit_def ret_def)

lemma holdsAfter_sign:
  "holdsAfter (sign tx key) w Q =
     Q (Inr (tx\<lparr>signatures := signatures tx @ [key]\<rparr>), w, [Sign key])"
  by (simp add: holdsAfter_def sign_def bnd_def emit_def ret_def)

lemma holdsAfter_if:
  "holdsAfter (if b then m1 else m2) w Q = (if b then holdsAfter m1 w Q else holdsAfter m2 w Q)"
  by simp

lemmas holdsAfter_simps = holdsAfter_ret holdsAfter_throw holdsAfter_bnd holdsAfter_tryCatch
  holdsAfter_getWorld holdsAfter_assign holdsAfter_emit holdsAfter_liftE holdsAfter_toString
  holdsAfter_publicKey holdsAfter_execute holdsAfter_getReceipt holdsAfter_accountBalanceQuery
  holdsAfter_tokenInfoQuery holdsAfter_getTokenBalance holdsAfter_addTokenTransfer
  holdsAfter_freezeWith holdsAfter_sign holdsAfter_if consoleLog_def assert_fail_def
  assert_ok_def accountAt_def
  assert_strictEqual_def newTransaction_def setOperator_def forTestnet_def Let_def

lemma holdsAfterD: "holdsAfter m w Q \<Longrightarrow> Q (m w)"
  by (simp add: holdsAfter_def)



section \<open>Facts shared by the claims\<close>

lemma Given_The_first_account_holds_eq:
  "Given_The_first_account_holds = Given_The_first_account_initially_holds"
  by (intro ext)
     (simp add: Given_The_first_account_holds_def Given_The_first_account_initially_holds_def)


subsection \<open>What the setup steps submit\<close>

lemma first_initially_adjusts:
  "mintsShortfall (this_firstAccountId w) (adjustForDecimals amount None)
     (Given_The_first_account_initially_holds k amount w)"
  by (rule holdsAfterD [where m = "Given_The_first_account_initially_holds k amount"])
     (simp add: Given_The_first_account_initially_holds_def holdsAfter_simps
        mintsShortfall_def events_def split: sum.split option.split)

lemma first_with_hbar_adjusts:
  "mintsShortfall
     (this_firstAccountId (finalWorld
        (Given_A_first_hedera_account_with_hbar_and_HTT_tokens k accounts hbarAmount
           tokenAmount w)))
     (adjustForDecimals tokenAmount None)
     (Given_A_first_hedera_account_with_hbar_and_HTT_tokens k accounts hbarAmount tokenAmount w)"
  by (rule holdsAfterD
        [where m = "Given_A_first_hedera_account_with_hbar_and_HTT_tokens k accounts hbarAmount
                      tokenAmount"
         and Q = "\<lambda>r. mintsShortfall (this_firstAccountId (finalWorld r))
                        (adjustForDecimals tokenAmount None) r"])
     (simp add: Given_A_first_hedera_account_with_hbar_and_HTT_tokens_def holdsAfter_simps
        mintsShortfall_def events_def finalWorld_def split: sum.split option.split)

lemma second_initially_adjusts:
  "transfersDifference (this_tokenId w) (this_firstAccountId w) (this_secondAccountId w)
     (adjustForDecimals amount None) (Given_The_second_account_initially_holds k amount w)"
  by (rule holdsAfterD [where m = "Given_The_second_account_initially_holds k amount"])
     (simp add: Given_The_second_account_initially_holds_def holdsAfter_simps
        transfersDifference_def events_def split: sum.split option.split)

lemma second_holds_adjusts:
  "transfersDifference (this_tokenId w) (this_firstAccountId w) (this_secondAccountId w)
     (adjustForDecimals amount None) (Given_The_second_account_holds k amount w)"
  by (rule holdsAfterD [where m = "Given_The_second_account_holds k amount"])
     (simp add: Given_The_second_account_holds_def holdsAfter_simps
        transfersDifference_def events_def split: sum.split option.split)

lemma second_with_hbar_adjusts:
  "transfersDifference (this_tokenId w) (this_firstAccountId w)
     (this_secondAccountId (finalWorld
        (Given_A_second_Hedera_account_with_hbar_and_HTT_tokens k accounts hbarAmount
           tokenAmount w)))
     (adjustForDecimals tokenAmount None)
     (Given_A_second_Hedera_account_with_hbar_and_HTT_tokens k accounts hbarAmount tokenAmount w)"
  by (rule holdsAfterD
        [where m = "Given_A_second_Hedera_account_with_hbar_and_HTT_tokens k accounts hbarAmount
                      tokenAmount"
         and Q = "\<lambda>r. transfersDifference (this_tokenId w) (this_firstAccountId w)
                        (this_secondAccountId (finalWorld r))
                        (adjustForDecimals tokenAmount None) r"])
     (simp add: Given_A_second_Hedera_account_with_hbar_and_HTT_tokens_def holdsAfter_simps
        transfersDifference_def events_def finalWorld_def split: sum.split option.split)

lemma third_with_hbar_adjusts:
  "transfersDifference (this_tokenId w) (this_firstAccountId w)
     (this_thirdAccountId (finalWorld
        (Given_A_third_Hedera_account_with_hbar_and_HTT_tokens k accounts hbarAmount
           tokenAmount w)))
     (adjustForDecimals tokenAmount None)
     (Given_A_third_Hedera_account_with_hbar_and_HTT_tokens k accounts hbarAmount tokenAmount w)"
  by (rule holdsAfterD
        [where m = "Given_A_third_Hedera_account_with_hbar_and_HTT_tokens k accounts hbarAmount
                      tokenAmount"
         and Q = "\<lambda>r. transfersDifference (this_tokenId w) (this_firstAccountId w)
                        (this_thirdAccountId (finalWorld r))
                        (adjustForDecimals tokenAmount None) r"])
     (simp add: Given_A_third_Hedera_account_with_hbar_and_HTT_tokens_def holdsAfter_simps
        transfersDifference_def events_def finalWorld_def split: sum.split option.split)

lemma fourth_with_hbar_adjusts:
  "transfersDifference (this_tokenId w) (this_firstAccountId w)
     (this_fourthAccountId (finalWorld
        (Given_A_fourth_Hedera_account_with_hbar_and_HTT_tokens k accounts hbarAmount
           tokenAmount w)))
     (adjustForDecimals tokenAmount None)
     (Given_A_fourth_Hedera_account_with_hbar_and_HTT_tokens k accounts hbarAmount tokenAmount w)"
  by (rule holdsAfterD
        [where m = "Given_A_fourth_Hedera_account_with_hbar_and_HTT_tokens k accounts hbarAmount
                      tokenAmount"
         and Q = "\<lambda>r. transfersDifference (this_tokenId w) (this_firstAccountId w)
                        (this_fourthAccountId (finalWorld r))
                        (adjustForDecimals tokenAmount None) r"])
     (simp add: Given_A_fourth_Hedera_account_with_hbar_and_HTT_tokens_def holdsAfter_simps
        transfersDifference_def events_def finalWorld_def split: sum.split option.split)

subsection \<open>The context after a setup step\<close>

lemma first_initially_context:
  "finalWorld (Given_The_first_account_initially_holds k amount w) =
     w\<lparr>net := net (finalWorld (Given_The_first_account_initially_holds k amount w))\<rparr>"
  by (rule holdsAfterD [where m = "Given_The_first_account_initially_holds k amount"
        and Q = "\<lambda>r. finalWorld r = w\<lparr>net := net (finalWorld r)\<rparr>"])
     (simp add: Given_The_first_account_initially_holds_def holdsAfter_simps
        finalWorld_def split: sum.split option.split)

lemma second_initially_context:
  "finalWorld (Given_The_second_account_initially_holds k amount w) =
     w\<lparr>net := net (finalWorld (Given_The_second_account_initially_holds k amount w))\<rparr>"
  by (rule holdsAfterD [where m = "Given_The_second_account_initially_holds k amount"
        and Q = "\<lambda>r. finalWorld r = w\<lparr>net := net (finalWorld r)\<rparr>"])
     (simp add: Given_The_second_account_initially_holds_def holdsAfter_simps
        finalWorld_def split: sum.split option.split)

lemma second_holds_context:
  "finalWorld (Given_The_second_account_holds k amount w) =
     w\<lparr>net := net (finalWorld (Given_The_second_account_holds k amount w))\<rparr>"
  by (rule holdsAfterD [where m = "Given_The_second_account_holds k amount"
        and Q = "\<lambda>r. finalWorld r = w\<lparr>net := net (finalWorld r)\<rparr>"])
     (simp add: Given_The_second_account_holds_def holdsAfter_simps
        finalWorld_def split: sum.split option.split)

subsection \<open>Balanced accounts and zero sums\<close>

lemma no_mint_when_all_expected:
  "list_all (\<lambda>x. x = Inr (e::int)) xs \<Longrightarrow>
     [e - c. Inr c \<leftarrow> xs, c < e, info \<leftarrow> is, p, q info] = []"
  by (induction xs) auto

lemma no_transfer_when_all_expected:
  "list_all (\<lambda>x. x = Inr e) xs \<Longrightarrow> [f c. Inr c \<leftarrow> xs, c \<noteq> e] = []"
  by (induction xs) auto

lemma mintsShortfall_balanced:
  assumes "mintsShortfall a e r" and "currentIs e r"
  shows "submitsNoAdjustment r"
  using assms
  by (simp add: mintsShortfall_def currentIs_def submitsNoAdjustment_def
        no_mint_when_all_expected)

lemma transfersDifference_balanced:
  assumes "transfersDifference t a b e r" and "currentIs e r"
  shows "submitsNoAdjustment r"
  using assms
  by (simp add: transfersDifference_def currentIs_def submitsNoAdjustment_def
        no_transfer_when_all_expected)


subsection \<open>What the setup steps throw\<close>



lemma second_initially_swallows:
  "swallowsErrors (Given_The_second_account_initially_holds k amount w)"
  by (rule holdsAfterD [where m = "Given_The_second_account_initially_holds k amount"])
     (simp add: Given_The_second_account_initially_holds_def holdsAfter_simps
        swallowsErrors_def logsWhatIsThrown_def events_def outcome_def lookupResult_def
        split: sum.split option.split)

lemma second_holds_swallows:
  "swallowsErrors (Given_The_second_account_holds k amount w)"
  by (rule holdsAfterD [where m = "Given_The_second_account_holds k amount"])
     (simp add: Given_The_second_account_holds_def holdsAfter_simps
        swallowsErrors_def logsWhatIsThrown_def events_def outcome_def lookupResult_def
        split: sum.split option.split)




subsection \<open>Association and transfer\<close>






section \<open>The token-balance lookup helper\<close>



section \<open>Balance verification\<close>




section \<open>Reconciling a balance\<close>




section \<open>Nothing to reconcile\<close>

text \<open>
  Claim C4. When every balance that a setup step looked up equals the expected balance,
  the step submits no mint and no transfer. The four \<^verbatim>\<open>holds\<close> steps moreover leave the
  scenario context as it was; the four steps that introduce an account store that account
  in the context, as they do in every run.
\<close>

theorem no_adjustment_when_balance_matches:
  "(step = Given_The_first_account_initially_holds
      \<or> step = Given_The_second_account_initially_holds
      \<or> step = Given_The_first_account_holds
      \<or> step = Given_The_second_account_holds
    \<longrightarrow> currentIs (adjustForDecimals amount None) (step k amount w)
    \<longrightarrow> noAdjustment w (step k amount w))
   \<and> (intro = Given_A_first_hedera_account_with_hbar_and_HTT_tokens
      \<or> intro = Given_A_second_Hedera_account_with_hbar_and_HTT_tokens
      \<or> intro = Given_A_third_Hedera_account_with_hbar_and_HTT_tokens
      \<or> intro = Given_A_fourth_Hedera_account_with_hbar_and_HTT_tokens
    \<longrightarrow> currentIs (adjustForDecimals amount None) (intro k accounts hbarAmount amount w)
    \<longrightarrow> submitsNoAdjustment (intro k accounts hbarAmount amount w))"
proof (intro conjI impI)
  let ?e = "adjustForDecimals amount None"
  assume steps: "step = Given_The_first_account_initially_holds
      \<or> step = Given_The_second_account_initially_holds
      \<or> step = Given_The_first_account_holds
      \<or> step = Given_The_second_account_holds"
    and balanced: "currentIs ?e (step k amount w)"
  from steps consider
      (first) "step k amount w = Given_The_first_account_initially_holds k amount w"
    | (second) "step = Given_The_second_account_initially_holds"
    | (holds) "step = Given_The_second_account_holds"
    by (auto simp: Given_The_first_account_holds_eq)
  then show "noAdjustment w (step k amount w)"
  proof cases
    case first
    with balanced mintsShortfall_balanced [OF first_initially_adjusts [of w amount k]]
      first_initially_context [of k amount w]
    show ?thesis by (simp add: noAdjustment_def)
  next
    case second
    with balanced transfersDifference_balanced [OF second_initially_adjusts [of w amount k]]
      second_initially_context [of k amount w]
    show ?thesis by (simp add: noAdjustment_def)
  next
    case holds
    with balanced transfersDifference_balanced [OF second_holds_adjusts [of w amount k]]
      second_holds_context [of k amount w]
    show ?thesis by (simp add: noAdjustment_def)
  qed
next
  let ?e = "adjustForDecimals amount None"
  assume intros: "intro = Given_A_first_hedera_account_with_hbar_and_HTT_tokens
      \<or> intro = Given_A_second_Hedera_account_with_hbar_and_HTT_tokens
      \<or> intro = Given_A_third_Hedera_account_with_hbar_and_HTT_tokens
      \<or> intro = Given_A_fourth_Hedera_account_with_hbar_and_HTT_tokens"
    and balanced: "currentIs ?e (intro k accounts hbarAmount amount w)"
  from intros show "submitsNoAdjustment (intro k accounts hbarAmount amount w)"
  proof (elim disjE)
    assume "intro = Given_A_first_hedera_account_with_hbar_and_HTT_tokens"
    with balanced mintsShortfall_balanced [OF first_with_hbar_adjusts]
    show ?thesis by blast
  next
    assume "intro = Given_A_second_Hedera_account_with_hbar_and_HTT_tokens"
    with balanced transfersDifference_balanced [OF second_with_hbar_adjusts]
    show ?thesis by blast
  next
    assume "intro = Given_A_third_Hedera_account_with_hbar_and_HTT_tokens"
    with balanced transfersDifference_balanced [OF third_with_hbar_adjusts]
    show ?thesis by blast
  next
    assume "intro = Given_A_fourth_Hedera_account_with_hbar_and_HTT_tokens"
    with balanced transfersDifference_balanced [OF fourth_with_hbar_adjusts]
    show ?thesis by blast
  qed
qed

theorem no_adjustment_when_balance_matches_witness:
  "lookedUp (events (Given_The_second_account_initially_holds
        (scriptedSdk (\<lambda>a. Inr (holding [(''0.0.9'', 1000)])) treasuryIsFirst Map.empty
           successReceipt) 10 sampleWorld)) = [Inr (adjustForDecimals 10 None)]
   \<and> currentIs (adjustForDecimals 10 None)
       (Given_The_second_account_initially_holds
          (scriptedSdk (\<lambda>a. Inr (holding [(''0.0.9'', 1000)])) treasuryIsFirst Map.empty
             successReceipt) 10 sampleWorld)
   \<and> noAdjustment sampleWorld
       (Given_The_second_account_initially_holds
          (scriptedSdk (\<lambda>a. Inr (holding [(''0.0.9'', 1000)])) treasuryIsFirst Map.empty
             successReceipt) 10 sampleWorld)"
proof -
  let ?k = "scriptedSdk (\<lambda>a. Inr (holding [(''0.0.9'', 1000)])) treasuryIsFirst Map.empty
              successReceipt"
  have l: "lookedUp (events (Given_The_second_account_initially_holds ?k 10 sampleWorld))
             = [Inr (adjustForDecimals 10 None)]"
    by (simp add: Given_The_second_account_initially_holds_def run_simps sample_defs)
  then have c: "currentIs (adjustForDecimals 10 None)
                  (Given_The_second_account_initially_holds ?k 10 sampleWorld)"
    by (simp add: currentIs_def)
  from no_adjustment_when_balance_matches
         [where step = Given_The_second_account_initially_holds and amount = 10 and k = ?k
            and w = sampleWorld] c
  have "noAdjustment sampleWorld (Given_The_second_account_initially_holds ?k 10 sampleWorld)"
    by blast
  with l c show ?thesis
    by blast
qed

section \<open>Errors in setup and in verification\<close>





section \<open>Transfers net to zero only when the amounts do\<close>




section \<open>The attempt to mint a fixed-supply token\<close>

text \<open>
  Claim C3 holds for a rejected mint and fails for an accepted one. The step never throws,
  because its \<^verbatim>\<open>assert.fail\<close> sits inside the \<^verbatim>\<open>try\<close> block whose handler swallows every
  error. The run below creates the fixed-supply token (no supply key in the creation
  transaction) on a network that accepts every transaction, and then attempts the mint: the
  mint is accepted, and the step passes with the message of the expected failure.
\<close>

theorem mint_attempt_passes_when_mint_is_accepted:
  "outcome (bnd (When_I_create_a_fixed_supply_token
                   (scriptedSdk (\<lambda>a. Inr (holding [])) treasuryIsFirst Map.empty createdReceipt)
                   1000)
              (\<lambda>_. Then_An_attempt_to_mint_tokens_fails
                   (scriptedSdk (\<lambda>a. Inr (holding [])) treasuryIsFirst Map.empty createdReceipt))
              sampleWorld) = Inr ()
   \<and> executed (events (bnd (When_I_create_a_fixed_supply_token
                   (scriptedSdk (\<lambda>a. Inr (holding [])) treasuryIsFirst Map.empty createdReceipt)
                   1000)
              (\<lambda>_. Then_An_attempt_to_mint_tokens_fails
                   (scriptedSdk (\<lambda>a. Inr (holding [])) treasuryIsFirst Map.empty createdReceipt))
              sampleWorld)) =
       [\<lparr>body = TokenCreateTransaction ''Test Token'' ''HTT'' 2 100000 (Some ''0.0.1'')
                  (Some (PublicKey ''key1'')) None,
         frozenWith = None, signatures = []\<rparr>,
        \<lparr>body = TokenMintTransaction (Some ''0.0.9'') 100,
         frozenWith = Some sampleClient, signatures = [Some ''key1'']\<rparr>]
   \<and> thrown (events (bnd (When_I_create_a_fixed_supply_token
                   (scriptedSdk (\<lambda>a. Inr (holding [])) treasuryIsFirst Map.empty createdReceipt)
                   1000)
              (\<lambda>_. Then_An_attempt_to_mint_tokens_fails
                   (scriptedSdk (\<lambda>a. Inr (holding [])) treasuryIsFirst Map.empty createdReceipt))
              sampleWorld)) = []
   \<and> last (events (bnd (When_I_create_a_fixed_supply_token
                   (scriptedSdk (\<lambda>a. Inr (holding [])) treasuryIsFirst Map.empty createdReceipt)
                   1000)
              (\<lambda>_. Then_An_attempt_to_mint_tokens_fails
                   (scriptedSdk (\<lambda>a. Inr (holding [])) treasuryIsFirst Map.empty createdReceipt))
              sampleWorld)) =
       ConsoleLog [Str ''Token minting failed as expected for fixed supply token'']"
  by (simp add: When_I_create_a_fixed_supply_token_def Then_An_attempt_to_mint_tokens_fails_def
        run_simps sample_defs)


section \<open>Association before transfer\<close>




section \<open>Assembly and submission of the multi-party transfer\<close>




section \<open>Receipts with a status other than success\<close>

text \<open>
  Claim C8, as the code has it. The publish step reports the status of its receipt: a
  status other than \<^verbatim>\<open>Success\<close> is thrown as an error and the message is not recorded. The
  setup steps do not report it: those of the first account never ask for the receipt of
  the mint they submit, and those of the second account return normally whatever the
  receipt query yields.
\<close>

theorem receipt_status_reported_by_publish_step:
  "reportsReceiptStatus w message (When_The_message_is_published_to_the_topic k message w)
   \<and> receipts (events (Given_The_first_account_initially_holds k amount w)) = []
   \<and> receipts (events (Given_The_first_account_holds k amount w)) = []
   \<and> outcome (Given_The_second_account_initially_holds k amount w) = Inr ()
   \<and> outcome (Given_The_second_account_holds k amount w) = Inr ()"
proof -
  have publish:
    "reportsReceiptStatus w message (When_The_message_is_published_to_the_topic k message w)"
    by (rule holdsAfterD [where m = "When_The_message_is_published_to_the_topic k message"])
       (simp add: When_The_message_is_published_to_the_topic_def holdsAfter_simps
          reportsReceiptStatus_def events_def outcome_def finalWorld_def split: sum.split)
  have no_receipt:
    "receipts (events (Given_The_first_account_initially_holds k amount w)) = []"
    by (rule holdsAfterD [where m = "Given_The_first_account_initially_holds k amount"
          and Q = "\<lambda>r. receipts (events r) = []"])
       (simp add: Given_The_first_account_initially_holds_def holdsAfter_simps events_def
          split: sum.split option.split)
  from publish no_receipt second_initially_swallows [of k amount w]
    second_holds_swallows [of k amount w]
  show ?thesis
    by (simp add: swallowsErrors_def Given_The_first_account_holds_eq)
qed

theorem receipt_status_reported_by_publish_step_witness:
  "receipts (events (When_The_message_is_published_to_the_topic
      (scriptedSdk (\<lambda>a. Inr (holding [])) treasuryIsFirst Map.empty failureReceipt)
      ''hello'' sampleWorld)) = [\<lparr>status = Failure 7, receipt_tokenId = None\<rparr>]
   \<and> outcome (When_The_message_is_published_to_the_topic
      (scriptedSdk (\<lambda>a. Inr (holding [])) treasuryIsFirst Map.empty failureReceipt)
      ''hello'' sampleWorld) = Inl (Error ''Message submission failed: '' (Failure 7))
   \<and> this_submittedMessage (finalWorld (When_The_message_is_published_to_the_topic
      (scriptedSdk (\<lambda>a. Inr (holding [])) treasuryIsFirst Map.empty failureReceipt)
      ''hello'' sampleWorld)) = None"
proof -
  let ?k = "scriptedSdk (\<lambda>a. Inr (holding [])) treasuryIsFirst Map.empty failureReceipt"
  have r: "receipts (events (When_The_message_is_published_to_the_topic ?k ''hello''
             sampleWorld)) = [\<lparr>status = Failure 7, receipt_tokenId = None\<rparr>]"
    by (simp add: When_The_message_is_published_to_the_topic_def run_simps sample_defs)
  have s: "this_submittedMessage sampleWorld = None"
    by (simp add: sampleWorld_def)
  from receipt_status_reported_by_publish_step
         [where w = sampleWorld and message = "''hello''" and k = ?k] r s
  show ?thesis
    by (simp add: reportsReceiptStatus_def)
qed

text \<open>
  The claim as stated fails for the setup steps. On a network whose receipts carry a status
  other than \<^verbatim>\<open>Success\<close>, the second account's step obtains such a receipt for its
  transfer and passes, and the first account's step submits its mint, never asks for the
  receipt, and passes.
\<close>

theorem setup_ignores_receipt_status_counterexample:
  "receipts (events (Given_The_second_account_initially_holds
      (scriptedSdk (\<lambda>a. Inr (holding [(''0.0.9'', 500)])) treasuryIsFirst Map.empty
         failureReceipt) 10 sampleWorld)) = [\<lparr>status = Failure 7, receipt_tokenId = None\<rparr>]
   \<and> outcome (Given_The_second_account_initially_holds
      (scriptedSdk (\<lambda>a. Inr (holding [(''0.0.9'', 500)])) treasuryIsFirst Map.empty
         failureReceipt) 10 sampleWorld) = Inr ()
   \<and> minted (executed (events (Given_The_first_account_initially_holds
      (scriptedSdk (\<lambda>a. Inr (holding [(''0.0.9'', 500)])) treasuryIsFirst Map.empty
         failureReceipt) 10 sampleWorld))) = [500]
   \<and> receipts (events (Given_The_first_account_initially_holds
      (scriptedSdk (\<lambda>a. Inr (holding [(''0.0.9'', 500)])) treasuryIsFirst Map.empty
         failureReceipt) 10 sampleWorld)) = []
   \<and> outcome (Given_The_first_account_initially_holds
      (scriptedSdk (\<lambda>a. Inr (holding [(''0.0.9'', 500)])) treasuryIsFirst Map.empty
         failureReceipt) 10 sampleWorld) = Inr ()"
  by (simp add: Given_The_second_account_initially_holds_def
        Given_The_first_account_initially_holds_def run_simps sample_defs)


end
